theory Spec2Isabelle
  imports Main
begin

section \<open>JavaScript values\<close>

text \<open>
  The controller works on plain JavaScript data: request bodies, query-parameter
  mappings, filter expressions and documents. A value is one of the primitives, a
  storage-engine id, a regular expression (source and flags), an array or an object.
  An object is the list of its own enumerable properties in insertion order.
  Properties inherited from \<open>Object.prototype\<close> are outside the model: field names are
  taken to be ordinary property names.
\<close>

datatype jsval =
    JUndefined
  | JNull
  | JBool bool
  | JNum int
  | JStr string
  | JObjectId string
  | JRegExp string string
  | JArr "jsval list"
  | JObj "(string \<times> jsval) list"

type_synonym jsobj = "(string \<times> jsval) list"

text \<open>\<open>obj[key]\<close>: the property, or \<open>undefined\<close> when the object has none.\<close>

definition js_get :: "jsobj \<Rightarrow> string \<Rightarrow> jsval" where
  "js_get obj k = (case map_of obj k of None \<Rightarrow> JUndefined | Some v \<Rightarrow> v)"

text \<open>\<open>obj[key] = v\<close>: an existing property keeps its place, a new one goes last.\<close>

fun js_set :: "jsobj \<Rightarrow> string \<Rightarrow> jsval \<Rightarrow> jsobj" where
  "js_set [] k v = [(k, v)]"
| "js_set ((k', v') # ps) k v =
     (if k' = k then (k, v) # ps else (k', v') # js_set ps k v)"

text \<open>\<open>Object.assign(target, source)\<close>: every own property of the source is set on the
  target, in the source's order.\<close>

definition object_assign :: "jsobj \<Rightarrow> jsobj \<Rightarrow> jsobj" where
  "object_assign target source = fold (\<lambda>(k, v) t. js_set t k v) source target"

text \<open>\<open>Object.keys(obj)\<close>.\<close>

definition js_keys :: "jsobj \<Rightarrow> string list" where
  "js_keys obj = map fst obj"

text \<open>Truthiness, as tested by \<open>&&\<close>, \<open>!\<close> and \<open>if\<close>.\<close>

fun truthy :: "jsval \<Rightarrow> bool" where
  "truthy JUndefined = False"
| "truthy JNull = False"
| "truthy (JBool b) = b"
| "truthy (JNum n) = (n \<noteq> 0)"
| "truthy (JStr s) = (s \<noteq> [])"
| "truthy _ = True"

text \<open>\<open>v.length\<close> for a value that is neither \<open>undefined\<close> nor \<open>null\<close>.\<close>

fun js_length :: "jsval \<Rightarrow> jsval" where
  "js_length (JArr xs) = JNum (int (length xs))"
| "js_length (JStr s) = JNum (int (length s))"
| "js_length (JObj obj) = js_get obj ''length''"
| "js_length _ = JUndefined"

text \<open>What escapes a function: an engine-raised \<open>TypeError\<close>, or a value thrown or
  rejected by a collaborator (a hook, the storage layer).\<close>

datatype exn = TypeError | Thrown jsval

text \<open>\<open>e.message\<close> on a caught value: reading a property of \<open>undefined\<close> or \<open>null\<close>
  raises, a primitive has no such property.\<close>

fun js_message :: "jsval \<Rightarrow> exn + jsval" where
  "js_message JUndefined = Inl TypeError"
| "js_message JNull = Inl TypeError"
| "js_message (JObj e) = Inr (js_get e ''message'')"
| "js_message _ = Inr JUndefined"

text \<open>\<open>xs.join(sep)\<close> on an array of strings.\<close>

fun js_join :: "string \<Rightarrow> string list \<Rightarrow> string" where
  "js_join sep [] = []"
| "js_join sep [x] = x"
| "js_join sep (x # y # ys) = x @ sep @ js_join sep (y # ys)"

section \<open>Collaborators\<close>

text \<open>
  The storage library is external. The controller uses its id predicate
  \<open>mongoose.Types.ObjectId.isValid\<close> and its id constructor \<open>mongoose.Types.ObjectId\<close>.
\<close>

record mongoose_lib =
  isValid :: "jsval \<Rightarrow> bool"
  ObjectId :: "jsval \<Rightarrow> jsval"

text \<open>A chained \<open>populate\<close> call: the path and the optional field selection.\<close>

datatype populate = Populate string "string option"

text \<open>
  The model handle \<open>this.model\<close>: \<open>new this.model(data)\<close> builds a document in memory;
  \<open>item.save()\<close>, \<open>item.delete()\<close> and \<open>findById(id)\<close> with its populate chain reach the
  storage layer and either fail with a thrown value (\<open>Inl\<close>) or give a result.
  \<open>findById\<close> yields \<open>None\<close> for JavaScript's \<open>null\<close>.
\<close>

record model_handle =
  construct :: "jsobj \<Rightarrow> jsobj"
  doc_save :: "jsobj \<Rightarrow> jsval + jsval"
  doc_delete :: "jsobj \<Rightarrow> jsval + jsval"
  findById :: "jsval \<Rightarrow> populate list \<Rightarrow> jsval + jsobj option"

text \<open>The storage operations a request issues, in order.\<close>

datatype storage_call =
    Save jsobj
  | Delete jsobj
  | FindById jsval "populate list"

section \<open>Query composition\<close>

text \<open>
  \<open>normalizeQuery\<close>: \<open>rest\<close> holds every property but \<open>$or\<close> and \<open>$and\<close>; each of the two
  is then assigned back when the query's value is truthy and has a truthy length.
\<close>

definition normalizeQuery :: "jsobj \<Rightarrow> jsobj" where
  "normalizeQuery query =
     fold (\<lambda>key rest.
        if truthy (js_get query key) \<and> truthy (js_length (js_get query key))
        then object_assign rest [(key, js_get query key)]
        else rest)
       [''$or'', ''$and'']
       (filter (\<lambda>(k, v). k \<noteq> ''$or'' \<and> k \<noteq> ''$and'') query)"

text \<open>
  The same function over a store of objects, where the query is an address: \<open>rest\<close> is
  a freshly allocated object, \<open>Object.assign\<close> writes to it in place, and the query is
  read again from the store at every step. The function is undefined on a dangling
  address.
\<close>

type_synonym heap = "jsobj list"

definition normalizeQuery_heap :: "heap \<Rightarrow> nat \<Rightarrow> (nat \<times> heap) option" where
  "normalizeQuery_heap h query =
     (if query < length h then
        let rest = length h;
            h0 = h @ [filter (\<lambda>(k, v). k \<noteq> ''$or'' \<and> k \<noteq> ''$and'') (h ! query)]
        in Some (rest,
             fold (\<lambda>key h'.
                if truthy (js_get (h' ! query) key)
                   \<and> truthy (js_length (js_get (h' ! query) key))
                then h'[rest := object_assign (h' ! rest) [(key, js_get (h' ! query) key)]]
                else h')
               [''$or'', ''$and''] h0)
      else None)"

text \<open>
  \<open>prepareFilter\<close>: one pushed condition per filter name whose query value is not
  \<open>undefined\<close>; a valid id is converted by the id constructor.
\<close>

definition prepareFilter :: "mongoose_lib \<Rightarrow> jsobj \<Rightarrow> string list \<Rightarrow> jsval list" where
  "prepareFilter lib query filterNames =
     fold (\<lambda>name andFilter.
        if js_get query name \<noteq> JUndefined then
          andFilter @
            [JObj [(name,
               if isValid lib (js_get query name) then ObjectId lib (js_get query name)
               else js_get query name)]]
        else andFilter)
       filterNames []"

text \<open>
  Modelled from the spec: \<open>mergeDeep\<close> of \<open>./util\<close>, which is not among the sources.
  The extra fragment is merged into the composed structure key by key: array-valued
  keys concatenate, object-valued keys merge recursively, any other value of the
  fragment is set on the target.
\<close>

function mergeDeep :: "jsobj \<Rightarrow> jsobj \<Rightarrow> jsobj" where
  "mergeDeep target [] = target"
| "mergeDeep target ((k, sv) # source) =
     mergeDeep
       (js_set target k
          (case sv of
             JArr b \<Rightarrow> (case map_of target k of Some (JArr a) \<Rightarrow> JArr (a @ b) | _ \<Rightarrow> sv)
           | JObj b \<Rightarrow> (case map_of target k of Some (JObj a) \<Rightarrow> JObj (mergeDeep a b) | _ \<Rightarrow> sv)
           | _ \<Rightarrow> sv))
       source"
  by pat_completeness auto
termination
  by (relation "measure (\<lambda>(t, s). size_list (size_prod (\<lambda>_. 0) size) s)") auto

section \<open>The controller\<close>

text \<open>
  The request: \<open>req.body\<close>, \<open>req.query\<close>, \<open>req.user\<close> and the document the by-id gate
  attached under the lowercased model name. \<open>update\<close>, \<open>delete\<close> and \<open>read\<close> are
  routed behind that gate, so the field holds a document.
\<close>

record request =
  body :: jsobj
  query :: jsobj
  user :: jsval
  item :: jsobj

text \<open>The response sink: \<open>res.json(payload)\<close> or \<open>res.status(code).send(payload)\<close>.\<close>

datatype response = Json jsval | Status nat jsval

record ControllerOptions =
  fieldNames :: "string list"
  populateFields :: "string list option"
  fieldNamesSearch :: "string list option"
  fieldNamesSearchFilter :: "string list option"
  listExtraQueryFields :: "string list option"

text \<open>
  The controller object: the library, the model handle, the options and the four
  hooks, which a subclass may override. A hook is asynchronous and may reject.
\<close>

record controller =
  mongoose :: mongoose_lib
  model :: model_handle
  options :: ControllerOptions
  preCreateHandler :: "request \<Rightarrow> jsobj \<Rightarrow> exn + jsobj"
  preUpdateHandler :: "request \<Rightarrow> jsobj \<Rightarrow> exn + jsobj"
  preDeleteHandler :: "request \<Rightarrow> jsobj \<Rightarrow> exn + jsobj"
  preListHandler :: "request \<Rightarrow> exn + jsobj"

text \<open>The base class: every item hook resolves to its argument, the list hook to \<open>{}\<close>.\<close>

definition BasicController ::
    "mongoose_lib \<Rightarrow> model_handle \<Rightarrow> ControllerOptions \<Rightarrow> controller" where
  "BasicController lib mdl opts =
     \<lparr> mongoose = lib, model = mdl, options = opts,
       preCreateHandler = (\<lambda>req data. Inr data),
       preUpdateHandler = (\<lambda>req data. Inr data),
       preDeleteHandler = (\<lambda>req data. Inr data),
       preListHandler = (\<lambda>req. Inr []) \<rparr>"

datatype operation_type = SAVE | DELETE

text \<open>
  The save/delete dispatcher: \<open>item[operationType]()\<close> is awaited inside \<open>try\<close>; the
  result goes to \<open>res.json\<close>, a caught value to \<open>res.status(400).send\<close> with its
  message. The first component is the storage calls issued.
\<close>

definition operation ::
    "model_handle \<Rightarrow> operation_type \<Rightarrow> jsobj \<Rightarrow> storage_call list \<times> (exn + response)" where
  "operation mdl operationType doc =
     (case operationType of
        SAVE \<Rightarrow>
          ([Save doc],
           case doc_save mdl doc of
             Inr saveResponse \<Rightarrow> Inr (Json saveResponse)
           | Inl e \<Rightarrow>
               (case js_message e of
                  Inl x \<Rightarrow> Inl x
                | Inr m \<Rightarrow> Inr (Status 400 (JObj [(''message'', m)]))))
      | DELETE \<Rightarrow>
          ([Delete doc],
           case doc_delete mdl doc of
             Inr saveResponse \<Rightarrow> Inr (Json saveResponse)
           | Inl e \<Rightarrow>
               (case js_message e of
                  Inl x \<Rightarrow> Inl x
                | Inr m \<Rightarrow> Inr (Status 400 (JObj [(''message'', m)])))))"

text \<open>\<open>read\<close>: the resolved document, verbatim.\<close>

definition read :: "controller \<Rightarrow> request \<Rightarrow> response" where
  "read c req = Json (JObj (item req))"

text \<open>
  The first two statements of \<open>create\<close> and of \<open>update\<close>: starting from \<open>{}\<close>, every
  whitelisted field is set to the body's value for it.
\<close>

definition itemData :: "string list \<Rightarrow> jsobj \<Rightarrow> jsobj" where
  "itemData names payload = fold (\<lambda>field d. js_set d field (js_get payload field)) names []"

text \<open>The document \<open>create\<close> hands to the dispatcher, or the hook's rejection.\<close>

definition create_item :: "controller \<Rightarrow> request \<Rightarrow> exn + jsobj" where
  "create_item c req =
     (case preCreateHandler c req (itemData (fieldNames (options c)) (body req)) of
        Inl e \<Rightarrow> Inl e
      | Inr updatedItemData \<Rightarrow>
          Inr (js_set (construct (model c) updatedItemData) ''user'' (user req)))"

definition create :: "controller \<Rightarrow> request \<Rightarrow> storage_call list \<times> (exn + response)" where
  "create c req =
     (case create_item c req of
        Inl e \<Rightarrow> ([], Inl e)
      | Inr doc \<Rightarrow> operation (model c) SAVE doc)"

text \<open>The document \<open>update\<close> hands to the dispatcher, or the hook's rejection.\<close>

definition update_item :: "controller \<Rightarrow> request \<Rightarrow> exn + jsobj" where
  "update_item c req =
     (case preUpdateHandler c req (itemData (fieldNames (options c)) (body req)) of
        Inl e \<Rightarrow> Inl e
      | Inr updatedItemData \<Rightarrow> Inr (object_assign (item req) updatedItemData))"

definition update :: "controller \<Rightarrow> request \<Rightarrow> storage_call list \<times> (exn + response)" where
  "update c req =
     (case update_item c req of
        Inl e \<Rightarrow> ([], Inl e)
      | Inr doc \<Rightarrow> operation (model c) SAVE doc)"

definition delete :: "controller \<Rightarrow> request \<Rightarrow> storage_call list \<times> (exn + response)" where
  "delete c req =
     (case preDeleteHandler c req (item req) of
        Inl e \<Rightarrow> ([], Inl e)
      | Inr updatedItem \<Rightarrow> operation (model c) DELETE updatedItem)"

subsection \<open>The list filter\<close>

definition backslash :: char where
  "backslash = CHR 0x5C"

text \<open>The character class of the escaping regular expression.\<close>

definition metachars :: "char list" where
  "metachars = ''.*+?^${}()|[]'' @ [backslash]"

text \<open>\<open>q.replace(/[.*+?^${}()|[\]\\]/g, '\\$&')\<close>: every match is replaced by a
  backslash and the match.\<close>

fun escape :: "string \<Rightarrow> string" where
  "escape [] = []"
| "escape (ch # cs) =
     (if ch \<in> set metachars then backslash # ch # escape cs else ch # escape cs)"

text \<open>
  The \<open>$or\<close> group of \<open>list\<close>: \<open>q\<close> defaults to the empty string and
  \<open>fieldNamesSearch\<close> to \<open>[]\<close>; a \<open>q\<close> that is not a string has no \<open>replace\<close> method and
  the call raises.
\<close>

definition list_or :: "controller \<Rightarrow> request \<Rightarrow> exn + jsval list" where
  "list_or c req =
     (let q = (case js_get (query req) ''q'' of JUndefined \<Rightarrow> JStr [] | v \<Rightarrow> v);
          names = (case fieldNamesSearch (options c) of None \<Rightarrow> [] | Some ns \<Rightarrow> ns)
      in case q of
           JStr s \<Rightarrow>
             (let escaped = escape s
              in Inr (map (\<lambda>field. JObj [(field, JObj [(''$regex'', JRegExp escaped ''i'')])])
                       names))
         | _ \<Rightarrow> Inl TypeError)"

text \<open>
  The composed query of \<open>list\<close>, \<open>mergeDeep({ $or, $and }, extraQuery)\<close>: the search
  group, the filter group and the fragment of the pre-list hook merged in.
\<close>

definition list_query :: "controller \<Rightarrow> request \<Rightarrow> exn + jsobj" where
  "list_query c req =
     (case list_or c req of
        Inl e \<Rightarrow> Inl e
      | Inr or_group \<Rightarrow>
          (let and_group =
                 prepareFilter (mongoose c) (query req)
                   (case fieldNamesSearchFilter (options c) of None \<Rightarrow> [] | Some ns \<Rightarrow> ns)
           in case preListHandler c req of
                Inl e \<Rightarrow> Inl e
              | Inr extraQuery \<Rightarrow>
                  Inr (mergeDeep [(''$or'', JArr or_group), (''$and'', JArr and_group)]
                         extraQuery)))"

text \<open>The argument \<open>list\<close> passes to \<open>find\<close>: the composed query, normalized.\<close>

definition list_filter :: "controller \<Rightarrow> request \<Rightarrow> exn + jsobj" where
  "list_filter c req =
     (case list_query c req of
        Inl e \<Rightarrow> Inl e
      | Inr composed \<Rightarrow> Inr (normalizeQuery composed))"

subsection \<open>The by-id gate\<close>

text \<open>How \<open>get\<close> ends: a response, \<open>next()\<close> with the document attached to the request,
  or \<open>next(err)\<close>.\<close>

datatype get_outcome = Respond response | Next request | NextError jsval

definition get :: "controller \<Rightarrow> request \<Rightarrow> jsval \<Rightarrow> storage_call list \<times> get_outcome" where
  "get c req ident =
     (if \<not> isValid (mongoose c) ident then
        ([], Respond (Status 400 (JObj [(''message'', JStr ''ID is invalid'')])))
      else
        let chain =
              Populate ''user'' (Some ''displayName'') #
              (case populateFields (options c) of
                 None \<Rightarrow> []
               | Some fs \<Rightarrow> [Populate (js_join '' '' fs) None])
        in ([FindById ident chain],
            case findById (model c) ident chain of
              Inl err \<Rightarrow> NextError err
            | Inr None \<Rightarrow>
                Respond (Status 404
                  (JObj [(''message'', JStr ''No item with that identifier has been found'')]))
            | Inr (Some data) \<Rightarrow> Next (req\<lparr>item := data\<rparr>)))"

section \<open>Connection lifecycle\<close>

text \<open>
  \<open>connect\<close> of \<open>mongoose.js\<close>. The driver's \<open>mongoose.connect(uri, options)\<close> returns a
  promise that settles either way; the process state holds the driver's \<open>debug\<close>
  setting, its connection object and the console.
\<close>

datatype 'a promise = Fulfilled 'a | Rejected jsval

datatype colour = Red | Yellow

datatype console_entry =
    ConsoleError colour string
  | ConsoleInfo colour string
  | ConsoleLog jsval

record db_config =
  uri :: string
  db_options :: jsobj
  debug :: jsval

record process_state =
  debug_setting :: jsval
  connection :: jsval
  console :: "console_entry list"

definition connect ::
    "(string \<Rightarrow> jsobj \<Rightarrow> unit promise) \<Rightarrow> process_state \<Rightarrow> db_config
       \<Rightarrow> jsval promise \<times> process_state" where
  "connect driver_connect st db =
     (case driver_connect (uri db) (db_options db) of
        Fulfilled u \<Rightarrow> (Fulfilled (connection st), st\<lparr>debug_setting := debug db\<rparr>)
      | Rejected err \<Rightarrow>
          (Fulfilled JUndefined,
           st\<lparr>console := console st @
                 [ConsoleError Red ''Could not connect to MongoDB!'', ConsoleLog err]\<rparr>))"

definition disconnect ::
    "unit promise \<Rightarrow> process_state \<Rightarrow> jsval promise \<times> process_state" where
  "disconnect driver_disconnect st =
     (case driver_disconnect of
        Fulfilled u \<Rightarrow>
          (Fulfilled JUndefined,
           st\<lparr>console := console st @ [ConsoleInfo Yellow ''Disconnected from MongoDB.'']\<rparr>)
      | Rejected err \<Rightarrow>
          (Fulfilled JUndefined,
           st\<lparr>console := console st @
                 [ConsoleError Red ''Error when disconnected from MongoDB'', ConsoleLog err]\<rparr>))"

section \<open>Notions of the specification\<close>

text \<open>
  A group counts as non-empty when it has a length that is not zero: a non-empty
  array or string, or an object with a truthy \<open>length\<close> property. A value without a
  length, \<open>undefined\<close> among them, does not.
\<close>

fun group_nonempty :: "jsval \<Rightarrow> bool" where
  "group_nonempty (JArr xs) = (xs \<noteq> [])"
| "group_nonempty (JStr s) = (s \<noteq> [])"
| "group_nonempty (JObj obj) = truthy (js_get obj ''length'')"
| "group_nonempty _ = False"

text \<open>
  The characters the specification lists as regular-expression metacharacters:
  \<open>. * + ? ^ $ { } ( ) | [ ] \\<close>.
\<close>

definition regex_syntax_chars :: "char list" where
  "regex_syntax_chars =
     [CHR ''.'', CHR ''*'', CHR ''+'', CHR ''?'', CHR ''^'', CHR ''$'', CHR ''{'', CHR ''}'',
      CHR ''('', CHR '')'', CHR ''|'', CHR ''['', CHR '']'', CHR 0x5C]"

text \<open>
  The reading of a pattern that uses no regular-expression syntax: a backslash
  followed by a listed metacharacter stands for that character, any other character
  that is not a listed metacharacter stands for itself. A bare metacharacter is
  syntax, and a pattern containing one has no such reading.
\<close>

fun literal_of :: "string \<Rightarrow> string option" where
  "literal_of [] = Some []"
| "literal_of [ch] = (if ch \<in> set regex_syntax_chars then None else Some [ch])"
| "literal_of (ch # d # cs) =
     (if ch = CHR 0x5C then
        (if d \<in> set regex_syntax_chars then map_option ((#) d) (literal_of cs) else None)
      else if ch \<in> set regex_syntax_chars then None
      else map_option ((#) ch) (literal_of (d # cs)))"

text \<open>Case folding of the letters \<open>A\<close> to \<open>Z\<close>.\<close>

definition to_lower :: "char \<Rightarrow> char" where
  "to_lower ch =
     (case map_of (zip ''ABCDEFGHIJKLMNOPQRSTUVWXYZ'' ''abcdefghijklmnopqrstuvwxyz'') ch of
        None \<Rightarrow> ch
      | Some l \<Rightarrow> l)"

text \<open>A text starts with a string; a string occurs in a text as a substring.\<close>

fun starts_with :: "string \<Rightarrow> string \<Rightarrow> bool" where
  "starts_with [] ys = True"
| "starts_with (x # xs) [] = False"
| "starts_with (x # xs) (y # ys) = (x = y \<and> starts_with xs ys)"

fun occurs_in :: "string \<Rightarrow> string \<Rightarrow> bool" where
  "occurs_in lit [] = (lit = [])"
| "occurs_in lit (y # ys) = (starts_with lit (y # ys) \<or> occurs_in lit ys)"

text \<open>
  What a pattern with a literal reading matches: the texts in which its reading
  occurs as a substring, letters compared without case under the flag \<open>i\<close>. A
  pattern with regular-expression syntax is not given a meaning here.
\<close>

definition literal_match :: "string \<Rightarrow> string \<Rightarrow> string \<Rightarrow> bool option" where
  "literal_match pattern flags subject =
     (case literal_of pattern of
        None \<Rightarrow> None
      | Some lit \<Rightarrow>
          Some (if CHR ''i'' \<in> set flags
                then occurs_in (map to_lower lit) (map to_lower subject)
                else occurs_in lit subject))"

section \<open>Example collaborators\<close>

text \<open>
  Concrete collaborators at which the theorems below are evaluated: ids are 24
  lower-case hexadecimal digits; one model saves every document as it is, the other
  fails every storage operation with the message \<open>boom\<close>.
\<close>

definition example_lib :: mongoose_lib where
  "example_lib =
     \<lparr> isValid = (\<lambda>v. case v of
                     JStr s \<Rightarrow> length s = 24 \<and> (\<forall>ch \<in> set s. ch \<in> set ''0123456789abcdef'')
                   | JObjectId s \<Rightarrow> True
                   | _ \<Rightarrow> False),
       ObjectId = (\<lambda>v. case v of JStr s \<Rightarrow> JObjectId s | _ \<Rightarrow> v) \<rparr>"

definition example_model :: model_handle where
  "example_model =
     \<lparr> construct = (\<lambda>d. d),
       doc_save = (\<lambda>d. Inr (JObj d)),
       doc_delete = (\<lambda>d. Inr (JObj d)),
       findById = (\<lambda>i ps. Inr None) \<rparr>"

definition failing_model :: model_handle where
  "failing_model =
     \<lparr> construct = (\<lambda>d. d),
       doc_save = (\<lambda>d. Inl (JObj [(''message'', JStr ''boom'')])),
       doc_delete = (\<lambda>d. Inl (JObj [(''message'', JStr ''boom'')])),
       findById = (\<lambda>i ps. Inl (JObj [(''message'', JStr ''boom'')])) \<rparr>"

definition title_options :: ControllerOptions where
  "title_options =
     \<lparr> fieldNames = [''title''], populateFields = None, fieldNamesSearch = None,
       fieldNamesSearchFilter = None, listExtraQueryFields = None \<rparr>"

definition search_options :: ControllerOptions where
  "search_options =
     \<lparr> fieldNames = [''title''], populateFields = None,
       fieldNamesSearch = Some [''title'', ''text''],
       fieldNamesSearchFilter = Some [''status''], listExtraQueryFields = None \<rparr>"

definition q_filter_options :: ControllerOptions where
  "q_filter_options =
     \<lparr> fieldNames = [''title''], populateFields = None, fieldNamesSearch = Some [],
       fieldNamesSearchFilter = Some [''q''], listExtraQueryFields = None \<rparr>"

definition status_filter_options :: ControllerOptions where
  "status_filter_options =
     \<lparr> fieldNames = [''title''], populateFields = None, fieldNamesSearch = None,
       fieldNamesSearchFilter = Some [''status''], listExtraQueryFields = None \<rparr>"

section \<open>Objects\<close>

lemma map_of_js_set: "map_of (js_set obj k v) = (map_of obj)(k \<mapsto> v)"
  by (induction obj) (auto simp: fun_eq_iff)

lemma js_get_js_set: "js_get (js_set obj k v) k' = (if k' = k then v else js_get obj k')"
  by (simp add: js_get_def map_of_js_set)

lemma js_keys_js_set:
  "js_keys (js_set obj k v) = (if k \<in> set (js_keys obj) then js_keys obj else js_keys obj @ [k])"
  unfolding js_keys_def by (induction obj) (force simp: image_iff)+

lemma keys_js_set: "set (js_keys (js_set obj k v)) = insert k (set (js_keys obj))"
  by (simp add: js_keys_js_set insert_absorb)

lemma distinct_js_set: "distinct (js_keys obj) \<Longrightarrow> distinct (js_keys (js_set obj k v))"
proof (induction obj)
  case Nil
  then show ?case by (simp add: js_keys_def)
next
  case (Cons p ps)
  have "set (map fst (js_set ps k v)) = insert k (set (map fst ps))"
    using keys_js_set [of ps k v] by (simp add: js_keys_def)
  with Cons show ?case by (cases p) (auto simp: js_keys_def)
qed

lemma map_of_object_assign:
  "distinct (js_keys src) \<Longrightarrow> map_of (object_assign target src) = map_of target ++ map_of src"
proof (induction src arbitrary: target)
  case Nil
  then show ?case by (simp add: object_assign_def)
next
  case (Cons p ps)
  obtain k v where p: "p = (k, v)" by (cases p)
  from Cons.prems p have nk: "k \<notin> fst ` set ps" and d: "distinct (js_keys ps)"
    by (auto simp: js_keys_def)
  have "map_of (object_assign target (p # ps)) = map_of (object_assign (js_set target k v) ps)"
    by (simp add: object_assign_def p)
  also have "\<dots> = map_of (js_set target k v) ++ map_of ps"
    using Cons.IH [OF d] .
  also have "\<dots> = map_of target ++ map_of (p # ps)"
  proof (rule ext)
    fix x
    have "map_of ps k = None" using nk by (simp add: map_of_eq_None_iff)
    then show "(map_of (js_set target k v) ++ map_of ps) x = (map_of target ++ map_of (p # ps)) x"
      by (cases "map_of ps x") (auto simp: p map_of_js_set map_add_def)
  qed
  finally show ?case .
qed


lemma keys_object_assign:
  "set (js_keys (object_assign target src)) = set (js_keys target) \<union> set (js_keys src)"
proof (induction src arbitrary: target)
  case Nil
  then show ?case by (simp add: object_assign_def js_keys_def)
next
  case (Cons p ps)
  obtain k v where p: "p = (k, v)" by (cases p)
  have "object_assign target (p # ps) = object_assign (js_set target k v) ps"
    by (simp add: object_assign_def p)
  then show ?case
    using Cons.IH [of "js_set target k v"] keys_js_set [of target k v]
    by (auto simp: p js_keys_def)
qed

lemma itemData_fold_keys:
  "set (js_keys (fold (\<lambda>field d. js_set d field (js_get payload field)) names acc))
     = set (js_keys acc) \<union> set names"
  by (induction names arbitrary: acc) (auto simp: keys_js_set)

lemma keys_itemData: "set (js_keys (itemData names payload)) = set names"
  using itemData_fold_keys [of payload names "[]"] by (simp add: itemData_def js_keys_def)

lemma itemData_fold_distinct:
  "distinct (js_keys acc) \<Longrightarrow>
   distinct (js_keys (fold (\<lambda>field d. js_set d field (js_get payload field)) names acc))"
  by (induction names arbitrary: acc) (auto simp: distinct_js_set)

lemma distinct_itemData: "distinct (js_keys (itemData names payload))"
  using itemData_fold_distinct [of "[]" payload names] by (simp add: itemData_def js_keys_def)

lemma itemData_fold_cong:
  "\<forall>f \<in> set names. js_get b1 f = js_get b2 f \<Longrightarrow>
   fold (\<lambda>field d. js_set d field (js_get b1 field)) names acc
     = fold (\<lambda>field d. js_set d field (js_get b2 field)) names acc"
  by (induction names arbitrary: acc) auto

lemma itemData_cong:
  "\<forall>f \<in> set names. js_get b1 f = js_get b2 f \<Longrightarrow> itemData names b1 = itemData names b2"
  by (simp add: itemData_def itemData_fold_cong)

lemma js_get_itemData:
  "js_get (itemData names payload) k = (if k \<in> set names then js_get payload k else JUndefined)"
proof -
  have "js_get (fold (\<lambda>field d. js_set d field (js_get payload field)) names acc) k
          = (if k \<in> set names then js_get payload k else js_get acc k)" for acc
    by (induction names arbitrary: acc) (auto simp: js_get_js_set)
  then show ?thesis by (simp add: itemData_def js_get_def)
qed

lemma js_set_fresh: "k \<notin> set (js_keys obj) \<Longrightarrow> js_set obj k v = obj @ [(k, v)]"
  unfolding js_keys_def by (induction obj) auto

section \<open>The field whitelist\<close>

text \<open>
  C1. Only the whitelisted keys of the request body reach the item data: two requests
  whose bodies agree on every whitelisted field build the same item data, whose keys
  are exactly the whitelist, and the base controller's \<open>create\<close> and \<open>update\<close> cannot
  tell the two requests apart. An update leaves every field outside the whitelist as
  the resolved document had it.
\<close>

theorem whitelist_noninterference:
  assumes agree: "\<forall>f \<in> set (fieldNames opts). js_get (body r1) f = js_get (body r2) f"
    and same: "user r1 = user r2" "item r1 = item r2"
  shows "itemData (fieldNames opts) (body r1) = itemData (fieldNames opts) (body r2)
         \<and> set (js_keys (itemData (fieldNames opts) (body r1))) = set (fieldNames opts)
         \<and> create (BasicController lib mdl opts) r1 = create (BasicController lib mdl opts) r2
         \<and> update (BasicController lib mdl opts) r1 = update (BasicController lib mdl opts) r2
         \<and> update_item (BasicController lib mdl opts) r1
             = Inr (object_assign (item r1) (itemData (fieldNames opts) (body r1)))
         \<and> (\<forall>k. k \<notin> set (fieldNames opts) \<longrightarrow>
               map_of (object_assign (item r1) (itemData (fieldNames opts) (body r1))) k
               = map_of (item r1) k)"
proof -
  have eq: "itemData (fieldNames opts) (body r1) = itemData (fieldNames opts) (body r2)"
    using agree by (rule itemData_cong)
  have ui: "update_item (BasicController lib mdl opts) r1
             = Inr (object_assign (item r1) (itemData (fieldNames opts) (body r1)))"
    by (simp add: update_item_def BasicController_def)
  have fr: "\<forall>k. k \<notin> set (fieldNames opts) \<longrightarrow>
               map_of (object_assign (item r1) (itemData (fieldNames opts) (body r1))) k
               = map_of (item r1) k"
  proof (intro allI impI)
    fix k
    assume "k \<notin> set (fieldNames opts)"
    then have "k \<notin> set (js_keys (itemData (fieldNames opts) (body r1)))"
      by (simp add: keys_itemData)
    then have "map_of (itemData (fieldNames opts) (body r1)) k = None"
      by (simp add: js_keys_def map_of_eq_None_iff)
    then show "map_of (object_assign (item r1) (itemData (fieldNames opts) (body r1))) k
               = map_of (item r1) k"
      by (simp add: map_of_object_assign [OF distinct_itemData] map_add_def)
  qed
  have "create_item (BasicController lib mdl opts) r1 = create_item (BasicController lib mdl opts) r2"
    by (simp add: create_item_def BasicController_def eq same)
  then have c: "create (BasicController lib mdl opts) r1 = create (BasicController lib mdl opts) r2"
    by (simp add: create_def)
  have "update_item (BasicController lib mdl opts) r1 = update_item (BasicController lib mdl opts) r2"
    by (simp add: update_item_def BasicController_def eq same)
  then have u: "update (BasicController lib mdl opts) r1 = update (BasicController lib mdl opts) r2"
    by (simp add: update_def)
  have ks: "set (js_keys (itemData (fieldNames opts) (body r1))) = set (fieldNames opts)"
    by (rule keys_itemData)
  from eq ks c u ui fr show ?thesis by (intro conjI)
qed

text \<open>With \<open>fieldNames = ['title']\<close> the body key \<open>secret\<close> is dropped on create and the
  document's own \<open>secret\<close> survives an update.\<close>

theorem whitelist_noninterference_witness:
  "itemData [''title''] [(''title'', JStr ''X''), (''secret'', JStr ''Y'')] = [(''title'', JStr ''X'')]
   \<and> itemData [''title''] [(''title'', JStr ''X'')] = [(''title'', JStr ''X'')]
   \<and> ''secret'' \<notin> set (js_keys (itemData [''title''] [(''title'', JStr ''X''), (''secret'', JStr ''Y'')]))
   \<and> create (BasicController example_lib example_model title_options)
        \<lparr>body = [(''title'', JStr ''X''), (''secret'', JStr ''Y'')], query = [], user = JStr ''ann'', item = []\<rparr>
      = create (BasicController example_lib example_model title_options)
        \<lparr>body = [(''title'', JStr ''X'')], query = [], user = JStr ''ann'', item = []\<rparr>
   \<and> update (BasicController example_lib example_model title_options)
        \<lparr>body = [(''title'', JStr ''X''), (''secret'', JStr ''Y'')], query = [], user = JStr ''ann'',
         item = [(''title'', JStr ''old''), (''secret'', JStr ''kept'')]\<rparr>
      = ([Save [(''title'', JStr ''X''), (''secret'', JStr ''kept'')]],
         Inr (Json (JObj [(''title'', JStr ''X''), (''secret'', JStr ''kept'')])))"
  using whitelist_noninterference [of title_options
      "\<lparr>body = [(''title'', JStr ''X''), (''secret'', JStr ''Y'')], query = [], user = JStr ''ann'', item = []\<rparr>"
      "\<lparr>body = [(''title'', JStr ''X'')], query = [], user = JStr ''ann'', item = []\<rparr>"
      example_lib example_model]
  by (simp add: title_options_def itemData_def js_get_def js_keys_def update_def update_item_def
      BasicController_def operation_def example_model_def object_assign_def)

section \<open>Update\<close>

text \<open>
  C2. On update, every field of the payload the pre-update hook returns overrides the
  resolved document's field, and every field of the resolved document that the
  payload lacks keeps its value; the result is what the dispatcher saves.
\<close>

theorem update_overrides_and_preserves:
  assumes hook: "preUpdateHandler c req (itemData (fieldNames (options c)) (body req)) = Inr p"
    and wf: "distinct (js_keys p)"
  shows "update_item c req = Inr (object_assign (item req) p)
         \<and> update c req = operation (model c) SAVE (object_assign (item req) p)
         \<and> (\<forall>k \<in> set (js_keys p). map_of (object_assign (item req) p) k = map_of p k)
         \<and> (\<forall>k. k \<notin> set (js_keys p) \<longrightarrow>
               map_of (object_assign (item req) p) k = map_of (item req) k)
         \<and> set (js_keys (object_assign (item req) p)) = set (js_keys (item req)) \<union> set (js_keys p)"
proof -
  have i: "update_item c req = Inr (object_assign (item req) p)"
    by (simp add: update_item_def hook)
  then have u: "update c req = operation (model c) SAVE (object_assign (item req) p)"
    by (simp add: update_def)
  have m: "map_of (object_assign (item req) p) = map_of (item req) ++ map_of p"
    using wf by (rule map_of_object_assign)
  have over: "\<forall>k \<in> set (js_keys p). map_of (object_assign (item req) p) k = map_of p k"
  proof
    fix k
    assume "k \<in> set (js_keys p)"
    then have "map_of p k \<noteq> None"
      by (simp add: js_keys_def map_of_eq_None_iff)
    then show "map_of (object_assign (item req) p) k = map_of p k"
      by (auto simp: m map_add_def)
  qed
  have keep: "\<forall>k. k \<notin> set (js_keys p) \<longrightarrow>
               map_of (object_assign (item req) p) k = map_of (item req) k"
  proof (intro allI impI)
    fix k
    assume "k \<notin> set (js_keys p)"
    then have "map_of p k = None"
      by (simp add: js_keys_def map_of_eq_None_iff)
    then show "map_of (object_assign (item req) p) k = map_of (item req) k"
      by (simp add: m map_add_def)
  qed
  from i u over keep show ?thesis by (simp add: keys_object_assign)
qed

theorem update_overrides_and_preserves_witness:
  "update (BasicController example_lib example_model title_options)
     \<lparr>body = [(''title'', JStr ''X''), (''secret'', JStr ''Y'')], query = [], user = JStr ''ann'',
      item = [(''secret'', JStr ''kept''), (''title'', JStr ''old'')]\<rparr>
   = operation example_model SAVE [(''secret'', JStr ''kept''), (''title'', JStr ''X'')]
   \<and> map_of (object_assign [(''secret'', JStr ''kept''), (''title'', JStr ''old'')]
         [(''title'', JStr ''X'')]) ''title'' = Some (JStr ''X'')
   \<and> map_of (object_assign [(''secret'', JStr ''kept''), (''title'', JStr ''old'')]
         [(''title'', JStr ''X'')]) ''secret'' = Some (JStr ''kept'')"
  using update_overrides_and_preserves
    [of "BasicController example_lib example_model title_options"
      "\<lparr>body = [(''title'', JStr ''X''), (''secret'', JStr ''Y'')], query = [], user = JStr ''ann'',
        item = [(''secret'', JStr ''kept''), (''title'', JStr ''old'')]\<rparr>"
      "[(''title'', JStr ''X'')]"]
  by (simp add: BasicController_def title_options_def itemData_def js_get_def js_keys_def
      object_assign_def)

section \<open>The filter conditions\<close>

lemma prepareFilter_fold:
  "fold (\<lambda>name andFilter.
        if js_get q name \<noteq> JUndefined then
          andFilter @
            [JObj [(name,
               if isValid lib (js_get q name) then ObjectId lib (js_get q name)
               else js_get q name)]]
        else andFilter) names acc
   = acc @ map (\<lambda>n. JObj [(n, if isValid lib (js_get q n) then ObjectId lib (js_get q n)
                               else js_get q n)])
             (filter (\<lambda>n. js_get q n \<noteq> JUndefined) names)"
  by (induction names arbitrary: acc) simp_all

lemma js_get_permuted:
  assumes "distinct (js_keys q)" "distinct (js_keys q')" "set q = set q'"
  shows "js_get q = js_get q'"
proof -
  have "map_of q = map_of q'"
    using assms by (simp add: js_keys_def map_of_inject_set)
  then show ?thesis by (simp add: js_get_def fun_eq_iff)
qed

text \<open>
  C3. \<open>prepareFilter\<close> returns one equality condition per eligible field whose query
  value is not \<open>undefined\<close>, in the order of the eligible-field list; a valid id is
  converted by the id constructor, any other value is used as it is. The result does
  not depend on the order of the query's keys.
\<close>

theorem prepareFilter_conditions:
  "prepareFilter lib q names =
     map (\<lambda>n. JObj [(n, if isValid lib (js_get q n) then ObjectId lib (js_get q n)
                        else js_get q n)])
       (filter (\<lambda>n. js_get q n \<noteq> JUndefined) names)
   \<and> (distinct (js_keys q) \<and> distinct (js_keys q') \<and> set q = set q' \<longrightarrow>
        prepareFilter lib q' names = prepareFilter lib q names)"
proof -
  have "distinct (js_keys q) \<and> distinct (js_keys q') \<and> set q = set q' \<longrightarrow>
        prepareFilter lib q' names = prepareFilter lib q names"
  proof
    assume "distinct (js_keys q) \<and> distinct (js_keys q') \<and> set q = set q'"
    then have "js_get q' = js_get q"
      using js_get_permuted [of q q'] by simp
    then show "prepareFilter lib q' names = prepareFilter lib q names"
      by (simp add: prepareFilter_def cong: if_cong)
  qed
  then show ?thesis
    using prepareFilter_fold [of q lib names "[]"] by (simp add: prepareFilter_def)
qed

theorem prepareFilter_conditions_witness:
  "prepareFilter example_lib
     [(''status'', JStr ''open''), (''owner'', JStr ''5f1d7f3e1c9d440000a1b2c3'')]
     [''owner'', ''status'', ''tag'']
   = [JObj [(''owner'', JObjectId ''5f1d7f3e1c9d440000a1b2c3'')], JObj [(''status'', JStr ''open'')]]
   \<and> prepareFilter example_lib
     [(''owner'', JStr ''5f1d7f3e1c9d440000a1b2c3''), (''status'', JStr ''open'')]
     [''owner'', ''status'', ''tag'']
   = prepareFilter example_lib
     [(''status'', JStr ''open''), (''owner'', JStr ''5f1d7f3e1c9d440000a1b2c3'')]
     [''owner'', ''status'', ''tag'']"
  using prepareFilter_conditions [of example_lib
      "[(''status'', JStr ''open''), (''owner'', JStr ''5f1d7f3e1c9d440000a1b2c3'')]"
      "[''owner'', ''status'', ''tag'']"
      "[(''owner'', JStr ''5f1d7f3e1c9d440000a1b2c3''), (''status'', JStr ''open'')]"]
  by (simp add: prepareFilter_def js_get_def js_keys_def example_lib_def insert_commute)

section \<open>Normalization\<close>

lemma kept_iff: "(truthy v \<and> truthy (js_length v)) = group_nonempty v"
  by (cases v) auto

lemma normalizeQuery_eq:
  "normalizeQuery q =
     filter (\<lambda>(k, v). k \<noteq> ''$or'' \<and> k \<noteq> ''$and'') q
     @ (if group_nonempty (js_get q ''$or'') then [(''$or'', js_get q ''$or'')] else [])
     @ (if group_nonempty (js_get q ''$and'') then [(''$and'', js_get q ''$and'')] else [])"
proof -
  let ?rest = "filter (\<lambda>(k, v). k \<noteq> ''$or'' \<and> k \<noteq> ''$and'') q"
  have a: "''$or'' \<notin> set (js_keys ?rest)" and b: "''$and'' \<notin> set (js_keys ?rest)"
    by (auto simp: js_keys_def)
  have c: "''$and'' \<notin> set (js_keys (?rest @ [(''$or'', v)]))" for v
    using b by (simp add: js_keys_def)
  show ?thesis
    unfolding normalizeQuery_def
    by (simp add: kept_iff object_assign_def js_set_fresh [OF a] js_set_fresh [OF b]
        js_set_fresh [OF c])
qed

lemma normalizeQuery_heap_eq:
  assumes "a < length h"
  shows "normalizeQuery_heap h a = Some (length h, h @ [normalizeQuery (h ! a)])"
proof -
  let ?rest = "filter (\<lambda>(k, v). k \<noteq> ''$or'' \<and> k \<noteq> ''$and'') (h ! a)"
  have r: "(h @ [x]) ! a = h ! a" for x
    using assms by (simp add: nth_append)
  have u: "(h @ [x])[length h := y] = h @ [y]" for x y :: jsobj
    by simp
  show ?thesis
    using assms
    by (simp add: normalizeQuery_heap_def normalizeQuery_def Let_def r u)
qed

lemma rest_keys:
  "map_of (filter (\<lambda>(k, v). k \<noteq> ''$or'' \<and> k \<noteq> ''$and'') q) key =
     (if key = ''$or'' \<or> key = ''$and'' then None else map_of q key)"
  by (induction q) auto

text \<open>
  C4. \<open>normalizeQuery\<close> keeps \<open>$or\<close> and \<open>$and\<close> exactly when the input group is
  non-empty, and then with the input's value; an empty or absent group is removed.
  Every other top-level key is passed through unchanged and in order. Run on a store,
  it allocates the result as a new object and leaves every existing object, the
  input among them, as it was.
\<close>

theorem normalizeQuery_groups:
  "(\<forall>key \<in> {''$or'', ''$and''}.
      (key \<in> set (js_keys (normalizeQuery q)) \<longleftrightarrow> group_nonempty (js_get q key))
      \<and> (group_nonempty (js_get q key) \<longrightarrow> map_of (normalizeQuery q) key = Some (js_get q key)))
   \<and> (\<forall>xs. js_get q ''$or'' = JArr xs \<longrightarrow>
         (''$or'' \<in> set (js_keys (normalizeQuery q)) \<longleftrightarrow> xs \<noteq> []))
   \<and> (\<forall>xs. js_get q ''$and'' = JArr xs \<longrightarrow>
         (''$and'' \<in> set (js_keys (normalizeQuery q)) \<longleftrightarrow> xs \<noteq> []))
   \<and> filter (\<lambda>(k, v). k \<noteq> ''$or'' \<and> k \<noteq> ''$and'') (normalizeQuery q)
       = filter (\<lambda>(k, v). k \<noteq> ''$or'' \<and> k \<noteq> ''$and'') q
   \<and> (\<forall>key. key \<noteq> ''$or'' \<and> key \<noteq> ''$and'' \<longrightarrow>
         map_of (normalizeQuery q) key = map_of q key)
   \<and> (a < length h \<longrightarrow>
         normalizeQuery_heap h a = Some (length h, h @ [normalizeQuery (h ! a)]))"
proof -
  let ?rest = "filter (\<lambda>(k, v). k \<noteq> ''$or'' \<and> k \<noteq> ''$and'') q"
  have keys: "set (js_keys (normalizeQuery q)) =
      set (js_keys ?rest)
      \<union> (if group_nonempty (js_get q ''$or'') then {''$or''} else {})
      \<union> (if group_nonempty (js_get q ''$and'') then {''$and''} else {})"
    by (simp add: normalizeQuery_eq js_keys_def)
  have nor: "''$or'' \<notin> set (js_keys ?rest)" and nand: "''$and'' \<notin> set (js_keys ?rest)"
    by (auto simp: js_keys_def)
  have por: "''$or'' \<in> set (js_keys (normalizeQuery q)) \<longleftrightarrow> group_nonempty (js_get q ''$or'')"
    using nor by (simp add: keys)
  have pand: "''$and'' \<in> set (js_keys (normalizeQuery q)) \<longleftrightarrow> group_nonempty (js_get q ''$and'')"
    using nand by (simp add: keys)
  have m: "map_of (normalizeQuery q) key =
      (if key = ''$or'' then (if group_nonempty (js_get q ''$or'') then Some (js_get q ''$or'') else None)
       else if key = ''$and'' then (if group_nonempty (js_get q ''$and'') then Some (js_get q ''$and'') else None)
       else map_of q key)" for key
    by (auto simp: normalizeQuery_eq map_add_def rest_keys split: option.splits)
  have vor: "group_nonempty (js_get q ''$or'') \<longrightarrow> map_of (normalizeQuery q) ''$or'' = Some (js_get q ''$or'')"
    by (simp add: m)
  have vand: "group_nonempty (js_get q ''$and'') \<longrightarrow> map_of (normalizeQuery q) ''$and'' = Some (js_get q ''$and'')"
    by (simp add: m)
  have pass: "filter (\<lambda>(k, v). k \<noteq> ''$or'' \<and> k \<noteq> ''$and'') (normalizeQuery q) = ?rest"
    by (simp add: normalizeQuery_eq)
  have other: "\<forall>key. key \<noteq> ''$or'' \<and> key \<noteq> ''$and'' \<longrightarrow> map_of (normalizeQuery q) key = map_of q key"
    by (simp add: m)
  have arr_or: "\<forall>xs. js_get q ''$or'' = JArr xs \<longrightarrow>
         (''$or'' \<in> set (js_keys (normalizeQuery q)) \<longleftrightarrow> xs \<noteq> [])"
    by (simp add: por)
  have arr_and: "\<forall>xs. js_get q ''$and'' = JArr xs \<longrightarrow>
         (''$and'' \<in> set (js_keys (normalizeQuery q)) \<longleftrightarrow> xs \<noteq> [])"
    by (simp add: pand)
  have hp: "a < length h \<longrightarrow>
         normalizeQuery_heap h a = Some (length h, h @ [normalizeQuery (h ! a)])"
    by (simp add: normalizeQuery_heap_eq)
  from por pand vor vand have grp: "\<forall>key \<in> {''$or'', ''$and''}.
      (key \<in> set (js_keys (normalizeQuery q)) \<longleftrightarrow> group_nonempty (js_get q key))
      \<and> (group_nonempty (js_get q key) \<longrightarrow> map_of (normalizeQuery q) key = Some (js_get q key))"
    by simp
  from grp arr_or arr_and pass other hp show ?thesis by (intro conjI)
qed

theorem normalizeQuery_groups_witness:
  "normalizeQuery [(''$or'', JArr []), (''status'', JStr ''open''), (''$and'', JArr [JObj [(''n'', JNum 1)]])]
     = [(''status'', JStr ''open''), (''$and'', JArr [JObj [(''n'', JNum 1)]])]
   \<and> ''$or'' \<notin> set (js_keys (normalizeQuery
        [(''$or'', JArr []), (''status'', JStr ''open''), (''$and'', JArr [JObj [(''n'', JNum 1)]])]))
   \<and> ''$and'' \<in> set (js_keys (normalizeQuery
        [(''$or'', JArr []), (''status'', JStr ''open''), (''$and'', JArr [JObj [(''n'', JNum 1)]])]))
   \<and> normalizeQuery_heap
        [[(''$or'', JArr []), (''status'', JStr ''open''), (''$and'', JArr [JObj [(''n'', JNum 1)]])]] 0
      = Some (1, [[(''$or'', JArr []), (''status'', JStr ''open''), (''$and'', JArr [JObj [(''n'', JNum 1)]])],
                  [(''status'', JStr ''open''), (''$and'', JArr [JObj [(''n'', JNum 1)]])]])"
  using normalizeQuery_groups
    [of "[(''$or'', JArr []), (''status'', JStr ''open''), (''$and'', JArr [JObj [(''n'', JNum 1)]])]"
      0 "[[(''$or'', JArr []), (''status'', JStr ''open''), (''$and'', JArr [JObj [(''n'', JNum 1)]])]]"]
  by (simp add: normalizeQuery_def js_get_def js_keys_def object_assign_def)

section \<open>The search group\<close>

lemma metachars_set:
  "set metachars =
     {CHR ''.'', CHR ''*'', CHR ''+'', CHR ''?'', CHR ''^'', CHR ''$'', CHR ''{'', CHR ''}'',
      CHR ''('', CHR '')'', CHR ''|'', CHR ''['', CHR '']'', CHR 0x5C}"
  by (simp add: metachars_def backslash_def)

lemma syntax_chars_escaped: "set regex_syntax_chars = set metachars"
  by (simp add: metachars_set regex_syntax_chars_def)

lemma backslash_syntax: "CHR 0x5C \<in> set regex_syntax_chars"
  by (simp add: regex_syntax_chars_def)

lemma literal_of_plain:
  "ch \<notin> set regex_syntax_chars \<Longrightarrow> literal_of (ch # cs) = map_option ((#) ch) (literal_of cs)"
  using backslash_syntax by (cases cs) auto

lemma literal_of_escape: "literal_of (escape s) = Some s"
proof (induction s)
  case Nil
  show ?case by simp
next
  case (Cons ch cs)
  show ?case
  proof (cases "ch \<in> set metachars")
    case True
    then have "ch \<in> set regex_syntax_chars"
      by (simp add: syntax_chars_escaped)
    then have "literal_of (CHR 0x5C # ch # escape cs) = Some (ch # cs)"
      by (simp add: Cons.IH)
    with True show ?thesis by (simp add: backslash_def)
  next
    case False
    then have "ch \<notin> set regex_syntax_chars"
      by (simp add: syntax_chars_escaped)
    then have "literal_of (ch # escape cs) = Some (ch # cs)"
      by (simp add: literal_of_plain Cons.IH)
    with False show ?thesis by simp
  qed
qed

lemma escape_concat:
  "escape s =
     concat (map (\<lambda>ch. if ch \<in> set metachars then [CHR 0x5C, ch] else [ch]) s)"
  by (induction s) (simp_all add: backslash_def)

lemma occurs_in_empty: "occurs_in [] subject"
  by (cases subject) simp_all

lemma base_list_query:
  "list_or (BasicController lib mdl opts) req = Inr og \<Longrightarrow>
   list_query (BasicController lib mdl opts) req =
     Inr [(''$or'', JArr og),
          (''$and'', JArr (prepareFilter lib (query req)
             (case fieldNamesSearchFilter opts of None \<Rightarrow> [] | Some ns \<Rightarrow> ns)))]"
  by (simp add: list_query_def BasicController_def)

lemma normalized_or:
  "map_of (normalizeQuery [(''$or'', JArr og), (''$and'', v)]) ''$or'' =
     (if og = [] then None else Some (JArr og))"
  by (auto simp: normalizeQuery_eq js_get_def)

lemma normalized_or_key:
  "''$or'' \<in> set (js_keys (normalizeQuery [(''$or'', JArr og), (''$and'', v)])) \<longleftrightarrow> og \<noteq> []"
  by (auto simp: normalizeQuery_eq js_get_def js_keys_def)

text \<open>
  C5. The character class of the escaping expression is exactly the set
  \<open>. * + ? ^ $ { } ( ) | [ ] \\<close>, and \<open>escape\<close> puts a backslash before every occurrence
  of each of them. For a search term that is a string, \<open>list\<close> builds one condition
  per search field on the case-insensitive regular expression whose source is the
  escaped term, and these conditions are the \<open>$or\<close> group of the filter the base
  controller hands to \<open>find\<close>. The escaped pattern reads as the term itself, with no
  regular-expression syntax, so it matches exactly the texts that contain the term
  as a substring, letters compared without case.
\<close>

theorem search_term_escaped:
  assumes "js_get (query req) ''q'' = JStr s"
  shows "list_or c req =
           Inr (map (\<lambda>field. JObj [(field, JObj [(''$regex'', JRegExp (escape s) ''i'')])])
                  (case fieldNamesSearch (options c) of None \<Rightarrow> [] | Some ns \<Rightarrow> ns))
         \<and> (\<exists>f. list_filter (BasicController lib mdl opts) req = Inr f
                \<and> map_of f ''$or'' =
                    (if (case fieldNamesSearch opts of None \<Rightarrow> [] | Some ns \<Rightarrow> ns) = [] then None
                     else Some (JArr
                       (map (\<lambda>field. JObj [(field, JObj [(''$regex'', JRegExp (escape s) ''i'')])])
                          (case fieldNamesSearch opts of None \<Rightarrow> [] | Some ns \<Rightarrow> ns)))))
         \<and> set metachars =
             {CHR ''.'', CHR ''*'', CHR ''+'', CHR ''?'', CHR ''^'', CHR ''$'', CHR ''{'', CHR ''}'',
              CHR ''('', CHR '')'', CHR ''|'', CHR ''['', CHR '']'', CHR 0x5C}
         \<and> escape s =
             concat (map (\<lambda>ch.
                if ch \<in> {CHR ''.'', CHR ''*'', CHR ''+'', CHR ''?'', CHR ''^'', CHR ''$'', CHR ''{'',
                          CHR ''}'', CHR ''('', CHR '')'', CHR ''|'', CHR ''['', CHR '']'', CHR 0x5C}
                then [CHR 0x5C, ch] else [ch]) s)
         \<and> literal_of (escape s) = Some s
         \<and> (\<forall>subject. literal_match (escape s) ''i'' subject
                     = Some (occurs_in (map to_lower s) (map to_lower subject)))"
proof -
  let ?cond = "\<lambda>field. JObj [(field, JObj [(''$regex'', JRegExp (escape s) ''i'')])]"
  let ?names = "case fieldNamesSearch opts of None \<Rightarrow> [] | Some ns \<Rightarrow> ns"
  have a: "list_or c req =
           Inr (map ?cond (case fieldNamesSearch (options c) of None \<Rightarrow> [] | Some ns \<Rightarrow> ns))" for c
    using assms by (simp add: list_or_def)
  have "list_or (BasicController lib mdl opts) req = Inr (map ?cond ?names)"
    using a [of "BasicController lib mdl opts"] by (simp add: BasicController_def)
  then have "list_filter (BasicController lib mdl opts) req =
      Inr (normalizeQuery [(''$or'', JArr (map ?cond ?names)),
          (''$and'', JArr (prepareFilter lib (query req)
             (case fieldNamesSearchFilter opts of None \<Rightarrow> [] | Some ns \<Rightarrow> ns)))])"
    by (simp add: list_filter_def base_list_query)
  then have b: "\<exists>f. list_filter (BasicController lib mdl opts) req = Inr f
                \<and> map_of f ''$or'' = (if ?names = [] then None else Some (JArr (map ?cond ?names)))"
    by (simp add: normalized_or)
  have d: "escape s =
             concat (map (\<lambda>ch.
                if ch \<in> {CHR ''.'', CHR ''*'', CHR ''+'', CHR ''?'', CHR ''^'', CHR ''$'', CHR ''{'',
                          CHR ''}'', CHR ''('', CHR '')'', CHR ''|'', CHR ''['', CHR '']'', CHR 0x5C}
                then [CHR 0x5C, ch] else [ch]) s)"
    using escape_concat [of s] by (simp only: metachars_set)
  have e: "literal_of (escape s) = Some s"
    by (rule literal_of_escape)
  have m: "\<forall>subject. literal_match (escape s) ''i'' subject
                     = Some (occurs_in (map to_lower s) (map to_lower subject))"
    by (simp add: literal_match_def e)
  from a [of c] b metachars_set d e m show ?thesis by (intro conjI)
qed

text \<open>
  The term \<open>a.b*c\<close> becomes \<open>a\.b\*c\<close>, which matches \<open>xA.B*Cy\<close> and not \<open>aXbbc\<close>; a term
  made of all fourteen metacharacters has each of them escaped.
\<close>

theorem search_term_escaped_witness:
  "list_or (BasicController example_lib example_model search_options)
     \<lparr>body = [], query = [(''q'', JStr ''a.b*c'')], user = JNull, item = []\<rparr>
   = Inr [JObj [(''title'', JObj [(''$regex'',
             JRegExp [CHR ''a'', CHR 0x5C, CHR ''.'', CHR ''b'', CHR 0x5C, CHR ''*'', CHR ''c''] ''i'')])],
          JObj [(''text'', JObj [(''$regex'',
             JRegExp [CHR ''a'', CHR 0x5C, CHR ''.'', CHR ''b'', CHR 0x5C, CHR ''*'', CHR ''c''] ''i'')])]]
   \<and> list_filter (BasicController example_lib example_model search_options)
     \<lparr>body = [], query = [(''q'', JStr ''a.b*c'')], user = JNull, item = []\<rparr>
   = Inr [(''$or'', JArr
       [JObj [(''title'', JObj [(''$regex'',
             JRegExp [CHR ''a'', CHR 0x5C, CHR ''.'', CHR ''b'', CHR 0x5C, CHR ''*'', CHR ''c''] ''i'')])],
        JObj [(''text'', JObj [(''$regex'',
             JRegExp [CHR ''a'', CHR 0x5C, CHR ''.'', CHR ''b'', CHR 0x5C, CHR ''*'', CHR ''c''] ''i'')])]])]
   \<and> escape (''.*+?^${}()|[]'' @ [CHR 0x5C])
     = [CHR 0x5C, CHR ''.'', CHR 0x5C, CHR ''*'', CHR 0x5C, CHR ''+'', CHR 0x5C, CHR ''?'',
        CHR 0x5C, CHR ''^'', CHR 0x5C, CHR ''$'', CHR 0x5C, CHR ''{'', CHR 0x5C, CHR ''}'',
        CHR 0x5C, CHR ''('', CHR 0x5C, CHR '')'', CHR 0x5C, CHR ''|'', CHR 0x5C, CHR ''['',
        CHR 0x5C, CHR '']'', CHR 0x5C, CHR 0x5C]
   \<and> literal_of [CHR ''a'', CHR 0x5C, CHR ''.'', CHR ''b'', CHR 0x5C, CHR ''*'', CHR ''c''] = Some ''a.b*c''
   \<and> literal_of ''a.b*c'' = None
   \<and> literal_match (escape ''a.b*c'') ''i'' ''xA.B*Cy'' = Some True
   \<and> literal_match (escape ''a.b*c'') ''i'' ''aXbbc'' = Some False"
  using search_term_escaped
    [of "\<lparr>body = [], query = [(''q'', JStr ''a.b*c'')], user = JNull, item = []\<rparr>" "''a.b*c''"
      "BasicController example_lib example_model search_options"
      example_lib example_model search_options]
  by (simp add: js_get_def BasicController_def search_options_def metachars_def backslash_def
      regex_syntax_chars_def list_filter_def list_query_def list_or_def prepareFilter_def
      normalizeQuery_def object_assign_def to_lower_def)

section \<open>The by-id gate rejects malformed ids\<close>

text \<open>
  C6. For an id the storage library does not accept as valid, \<open>get\<close> responds with
  status 400 and the message \<open>ID is invalid\<close>, and issues no storage call.
\<close>

theorem get_invalid_id:
  assumes "\<not> isValid (mongoose c) ident"
  shows "get c req ident = ([], Respond (Status 400 (JObj [(''message'', JStr ''ID is invalid'')])))"
  using assms by (simp add: get_def)

theorem get_invalid_id_witness:
  "get (BasicController example_lib example_model title_options)
     \<lparr>body = [], query = [], user = JNull, item = []\<rparr> (JStr ''not-an-id'')
   = ([], Respond (Status 400 (JObj [(''message'', JStr ''ID is invalid'')])))
   \<and> fst (get (BasicController example_lib example_model title_options)
     \<lparr>body = [], query = [], user = JNull, item = []\<rparr> (JStr ''5f1d7f3e1c9d440000a1b2c3''))
   = [FindById (JStr ''5f1d7f3e1c9d440000a1b2c3'') [Populate ''user'' (Some ''displayName'')]]"
  using get_invalid_id
    [of "BasicController example_lib example_model title_options" "JStr ''not-an-id''"
      "\<lparr>body = [], query = [], user = JNull, item = []\<rparr>"]
  by (simp add: get_def Let_def BasicController_def example_lib_def title_options_def)

section \<open>The dispatcher\<close>

text \<open>
  C7. \<open>create\<close>, \<open>update\<close> and \<open>delete\<close> all end in the dispatcher. When the storage
  call fails with an error object, the response is status 400 with that object's
  message; when it succeeds, the response is the call's result.
\<close>

theorem storage_failure_is_client_error:
  "(create_item c req = Inr doc \<longrightarrow>
      create c req = operation (model c) SAVE doc
      \<and> (doc_save (model c) doc = Inl (JObj e) \<longrightarrow>
           create c req = ([Save doc], Inr (Status 400 (JObj [(''message'', js_get e ''message'')]))))
      \<and> (doc_save (model c) doc = Inr r \<longrightarrow> create c req = ([Save doc], Inr (Json r))))
   \<and> (update_item c req = Inr doc \<longrightarrow>
      update c req = operation (model c) SAVE doc
      \<and> (doc_save (model c) doc = Inl (JObj e) \<longrightarrow>
           update c req = ([Save doc], Inr (Status 400 (JObj [(''message'', js_get e ''message'')]))))
      \<and> (doc_save (model c) doc = Inr r \<longrightarrow> update c req = ([Save doc], Inr (Json r))))
   \<and> (preDeleteHandler c req (item req) = Inr doc \<longrightarrow>
      delete c req = operation (model c) DELETE doc
      \<and> (doc_delete (model c) doc = Inl (JObj e) \<longrightarrow>
           delete c req = ([Delete doc], Inr (Status 400 (JObj [(''message'', js_get e ''message'')]))))
      \<and> (doc_delete (model c) doc = Inr r \<longrightarrow> delete c req = ([Delete doc], Inr (Json r))))"
proof -
  have f: "doc_save (model c) doc = Inl (JObj e) \<longrightarrow>
      operation (model c) SAVE doc = ([Save doc], Inr (Status 400 (JObj [(''message'', js_get e ''message'')])))"
    by (simp add: operation_def)
  have g: "doc_delete (model c) doc = Inl (JObj e) \<longrightarrow>
      operation (model c) DELETE doc = ([Delete doc], Inr (Status 400 (JObj [(''message'', js_get e ''message'')])))"
    by (simp add: operation_def)
  have s: "doc_save (model c) doc = Inr r \<longrightarrow> operation (model c) SAVE doc = ([Save doc], Inr (Json r))"
    by (simp add: operation_def)
  have d: "doc_delete (model c) doc = Inr r \<longrightarrow> operation (model c) DELETE doc = ([Delete doc], Inr (Json r))"
    by (simp add: operation_def)
  have cr: "create_item c req = Inr doc \<longrightarrow> create c req = operation (model c) SAVE doc"
    by (simp add: create_def)
  have up: "update_item c req = Inr doc \<longrightarrow> update c req = operation (model c) SAVE doc"
    by (simp add: update_def)
  have de: "preDeleteHandler c req (item req) = Inr doc \<longrightarrow> delete c req = operation (model c) DELETE doc"
    by (simp add: delete_def)
  from f g s d cr up de show ?thesis by simp
qed

theorem storage_failure_is_client_error_witness:
  "create (BasicController example_lib failing_model title_options)
     \<lparr>body = [(''title'', JStr ''X'')], query = [], user = JStr ''ann'', item = []\<rparr>
   = ([Save [(''title'', JStr ''X''), (''user'', JStr ''ann'')]],
      Inr (Status 400 (JObj [(''message'', JStr ''boom'')])))
   \<and> update (BasicController example_lib failing_model title_options)
     \<lparr>body = [(''title'', JStr ''X'')], query = [], user = JStr ''ann'', item = []\<rparr>
   = ([Save [(''title'', JStr ''X'')]], Inr (Status 400 (JObj [(''message'', JStr ''boom'')])))
   \<and> delete (BasicController example_lib failing_model title_options)
     \<lparr>body = [(''title'', JStr ''X'')], query = [], user = JStr ''ann'', item = []\<rparr>
   = ([Delete []], Inr (Status 400 (JObj [(''message'', JStr ''boom'')])))"
  using storage_failure_is_client_error
    [of "BasicController example_lib failing_model title_options"
      "\<lparr>body = [(''title'', JStr ''X'')], query = [], user = JStr ''ann'', item = []\<rparr>"
      "[(''title'', JStr ''X''), (''user'', JStr ''ann'')]" "[(''message'', JStr ''boom'')]" JNull]
    storage_failure_is_client_error
    [of "BasicController example_lib failing_model title_options"
      "\<lparr>body = [(''title'', JStr ''X'')], query = [], user = JStr ''ann'', item = []\<rparr>"
      "[(''title'', JStr ''X'')]" "[(''message'', JStr ''boom'')]" JNull]
    storage_failure_is_client_error
    [of "BasicController example_lib failing_model title_options"
      "\<lparr>body = [(''title'', JStr ''X'')], query = [], user = JStr ''ann'', item = []\<rparr>"
      "[]" "[(''message'', JStr ''boom'')]" JNull]
  by (simp add: create_def update_def delete_def operation_def create_item_def update_item_def
      BasicController_def failing_model_def title_options_def itemData_def js_get_def
      object_assign_def)

section \<open>The creator of a new item\<close>

text \<open>
  C9. Whatever item data the pre-create hook returns, the document \<open>create\<close> hands to
  the dispatcher has the request's user as its \<open>user\<close>: the assignment comes after
  the hook and after the document is built.
\<close>

theorem create_user_is_request_user:
  assumes "preCreateHandler c req (itemData (fieldNames (options c)) (body req)) = Inr d"
  shows "create_item c req = Inr (js_set (construct (model c) d) ''user'' (user req))
         \<and> js_get (js_set (construct (model c) d) ''user'' (user req)) ''user'' = user req
         \<and> create c req = operation (model c) SAVE (js_set (construct (model c) d) ''user'' (user req))
         \<and> fst (create c req) = [Save (js_set (construct (model c) d) ''user'' (user req))]"
proof -
  have i: "create_item c req = Inr (js_set (construct (model c) d) ''user'' (user req))"
    using assms by (simp add: create_item_def)
  then have o: "create c req = operation (model c) SAVE (js_set (construct (model c) d) ''user'' (user req))"
    by (simp add: create_def)
  have "fst (operation mdl SAVE doc) = [Save doc]" for mdl doc
    by (simp add: operation_def)
  with i o show ?thesis by (simp add: js_get_js_set)
qed

theorem create_user_is_request_user_witness:
  "create ((BasicController example_lib example_model title_options)
            \<lparr>preCreateHandler := (\<lambda>req d. Inr (js_set d ''user'' (JStr ''mallory'')))\<rparr>)
     \<lparr>body = [(''title'', JStr ''X'')], query = [], user = JStr ''ann'', item = []\<rparr>
   = ([Save [(''title'', JStr ''X''), (''user'', JStr ''ann'')]],
      Inr (Json (JObj [(''title'', JStr ''X''), (''user'', JStr ''ann'')])))"
  using create_user_is_request_user
    [of "(BasicController example_lib example_model title_options)
            \<lparr>preCreateHandler := (\<lambda>req d. Inr (js_set d ''user'' (JStr ''mallory'')))\<rparr>"
      "\<lparr>body = [(''title'', JStr ''X'')], query = [], user = JStr ''ann'', item = []\<rparr>"
      "[(''title'', JStr ''X''), (''user'', JStr ''mallory'')]"]
  by (simp add: BasicController_def example_model_def title_options_def itemData_def js_get_def
      operation_def)

section \<open>Connecting\<close>

text \<open>
  C10. When the driver's connect promise rejects, \<open>connect\<close> logs the error and its
  promise fulfils with \<open>undefined\<close>; it never rejects, and it yields the connection
  handle only when the driver's promise fulfilled.
\<close>

theorem connect_never_rejects:
  "(driver_connect (uri db) (db_options db) = Rejected err \<longrightarrow>
      connect driver_connect st db =
        (Fulfilled JUndefined,
         st\<lparr>console := console st @
               [ConsoleError Red ''Could not connect to MongoDB!'', ConsoleLog err]\<rparr>))
   \<and> (driver_connect (uri db) (db_options db) = Fulfilled u \<longrightarrow>
      connect driver_connect st db = (Fulfilled (connection st), st\<lparr>debug_setting := debug db\<rparr>))
   \<and> (\<forall>e. fst (connect driver_connect st db) \<noteq> Rejected e)
   \<and> (connection st \<noteq> JUndefined \<and> fst (connect driver_connect st db) = Fulfilled (connection st)
        \<longrightarrow> driver_connect (uri db) (db_options db) = Fulfilled ())"
  by (cases "driver_connect (uri db) (db_options db)") (auto simp: connect_def)

theorem connect_never_rejects_witness:
  "connect (\<lambda>u opts. Rejected (JObj [(''message'', JStr ''ECONNREFUSED'')]))
     \<lparr>debug_setting = JUndefined, connection = JObj [(''readyState'', JNum 0)], console = []\<rparr>
     \<lparr>uri = ''mongodb://localhost/test'', db_options = [], debug = JBool True\<rparr>
   = (Fulfilled JUndefined,
      \<lparr>debug_setting = JUndefined, connection = JObj [(''readyState'', JNum 0)],
       console = [ConsoleError Red ''Could not connect to MongoDB!'',
                  ConsoleLog (JObj [(''message'', JStr ''ECONNREFUSED'')])]\<rparr>)
   \<and> connect (\<lambda>u opts. Fulfilled ())
     \<lparr>debug_setting = JUndefined, connection = JObj [(''readyState'', JNum 0)], console = []\<rparr>
     \<lparr>uri = ''mongodb://localhost/test'', db_options = [], debug = JBool True\<rparr>
   = (Fulfilled (JObj [(''readyState'', JNum 0)]),
      \<lparr>debug_setting = JBool True, connection = JObj [(''readyState'', JNum 0)], console = []\<rparr>)"
  using connect_never_rejects
    [of "\<lambda>u opts. Rejected (JObj [(''message'', JStr ''ECONNREFUSED'')])"
      "\<lparr>uri = ''mongodb://localhost/test'', db_options = [], debug = JBool True\<rparr>"
      "JObj [(''message'', JStr ''ECONNREFUSED'')]"
      "\<lparr>debug_setting = JUndefined, connection = JObj [(''readyState'', JNum 0)], console = []\<rparr>"
      "()"]
    connect_never_rejects
    [of "\<lambda>u opts. Fulfilled ()"
      "\<lparr>uri = ''mongodb://localhost/test'', db_options = [], debug = JBool True\<rparr>"
      "JNull"
      "\<lparr>debug_setting = JUndefined, connection = JObj [(''readyState'', JNum 0)], console = []\<rparr>"
      "()"]
  by simp

section \<open>The empty search term\<close>

lemma prepareFilter_cong:
  "\<forall>n \<in> set names. js_get q1 n = js_get q2 n \<Longrightarrow>
   prepareFilter lib q1 names = prepareFilter lib q2 names"
proof -
  assume a: "\<forall>n \<in> set names. js_get q1 n = js_get q2 n"
  have "fold (\<lambda>name andFilter.
        if js_get q1 name \<noteq> JUndefined then
          andFilter @
            [JObj [(name,
               if isValid lib (js_get q1 name) then ObjectId lib (js_get q1 name)
               else js_get q1 name)]]
        else andFilter) names acc
      = fold (\<lambda>name andFilter.
        if js_get q2 name \<noteq> JUndefined then
          andFilter @
            [JObj [(name,
               if isValid lib (js_get q2 name) then ObjectId lib (js_get q2 name)
               else js_get q2 name)]]
        else andFilter) names acc" for acc
    using a by (induction names arbitrary: acc) simp_all
  then show ?thesis by (simp add: prepareFilter_def)
qed

lemma list_or_no_fields:
  assumes "(case fieldNamesSearch (options c) of None \<Rightarrow> [] | Some ns \<Rightarrow> ns) = []"
    and "js_get (query r) ''q'' = JUndefined \<or> (\<exists>s. js_get (query r) ''q'' = JStr s)"
  shows "list_or c r = Inr []"
  using assms by (auto simp: list_or_def)

text \<open>
  With no search field configured but \<open>q\<close> listed as an exact-match filter field, the
  final filter of the base controller follows the value of \<open>q\<close>, and differs between
  an empty \<open>q\<close> and an absent one.
\<close>

theorem q_as_filter_field_counterexample:
  "list_filter (BasicController example_lib example_model q_filter_options)
     \<lparr>body = [], query = [(''q'', JStr ''a'')], user = JNull, item = []\<rparr>
   = Inr [(''$and'', JArr [JObj [(''q'', JStr ''a'')]])]
   \<and> list_filter (BasicController example_lib example_model q_filter_options)
     \<lparr>body = [], query = [(''q'', JStr ''b'')], user = JNull, item = []\<rparr>
   = Inr [(''$and'', JArr [JObj [(''q'', JStr ''b'')]])]
   \<and> list_filter (BasicController example_lib example_model q_filter_options)
     \<lparr>body = [], query = [(''q'', JStr [])], user = JNull, item = []\<rparr>
   = Inr [(''$and'', JArr [JObj [(''q'', JStr [])]])]
   \<and> list_filter (BasicController example_lib example_model q_filter_options)
     \<lparr>body = [], query = [], user = JNull, item = []\<rparr>
   = Inr []
   \<and> list_filter (BasicController example_lib example_model q_filter_options)
     \<lparr>body = [], query = [(''q'', JStr ''a'')], user = JNull, item = []\<rparr>
   \<noteq> list_filter (BasicController example_lib example_model q_filter_options)
     \<lparr>body = [], query = [(''q'', JStr ''b'')], user = JNull, item = []\<rparr>
   \<and> list_filter (BasicController example_lib example_model q_filter_options)
     \<lparr>body = [], query = [(''q'', JStr [])], user = JNull, item = []\<rparr>
   \<noteq> list_filter (BasicController example_lib example_model q_filter_options)
     \<lparr>body = [], query = [], user = JNull, item = []\<rparr>"
  by (simp add: list_filter_def list_query_def list_or_def BasicController_def q_filter_options_def
      prepareFilter_def normalizeQuery_def js_get_def object_assign_def example_lib_def)

text \<open>
  C8, amended. For a list request with an empty search term, the \<open>$or\<close> group of the
  composed query holds one condition per configured search field, each on the empty
  pattern, which matches every text; with a search field configured the group is the
  \<open>$or\<close> of the final filter. With no search field configured the group is empty
  and normalization drops it, and the final filter does not depend on \<open>q\<close>, unless
  \<open>q\<close> is itself listed in \<open>fieldNamesSearchFilter\<close>: two requests whose queries agree on
  every exact-match filter field get the same final filter, and setting \<open>q\<close> to any
  string changes nothing when \<open>q\<close> is not such a field.
\<close>

theorem empty_search_term:
  "((js_get (query req) ''q'' = JUndefined \<or> js_get (query req) ''q'' = JStr []) \<longrightarrow>
      list_or c req =
        Inr (map (\<lambda>field. JObj [(field, JObj [(''$regex'', JRegExp [] ''i'')])])
               (case fieldNamesSearch (options c) of None \<Rightarrow> [] | Some ns \<Rightarrow> ns))
      \<and> (\<exists>g. list_query (BasicController lib mdl opts) req = Inr g
             \<and> map_of g ''$or'' =
                 Some (JArr (map (\<lambda>field. JObj [(field, JObj [(''$regex'', JRegExp [] ''i'')])])
                    (case fieldNamesSearch opts of None \<Rightarrow> [] | Some ns \<Rightarrow> ns))))
      \<and> (\<exists>f. list_filter (BasicController lib mdl opts) req = Inr f
             \<and> map_of f ''$or'' =
                 (if (case fieldNamesSearch opts of None \<Rightarrow> [] | Some ns \<Rightarrow> ns) = [] then None
                  else Some (JArr
                    (map (\<lambda>field. JObj [(field, JObj [(''$regex'', JRegExp [] ''i'')])])
                       (case fieldNamesSearch opts of None \<Rightarrow> [] | Some ns \<Rightarrow> ns))))))
   \<and> (\<forall>subject. literal_match [] ''i'' subject = Some True)
   \<and> ((case fieldNamesSearch (options c) of None \<Rightarrow> [] | Some ns \<Rightarrow> ns) = []
        \<and> (js_get (query r1) ''q'' = JUndefined \<or> (\<exists>s. js_get (query r1) ''q'' = JStr s))
        \<and> (js_get (query r2) ''q'' = JUndefined \<or> (\<exists>s. js_get (query r2) ''q'' = JStr s))
        \<and> (\<forall>n \<in> set (case fieldNamesSearchFilter (options c) of None \<Rightarrow> [] | Some ns \<Rightarrow> ns).
              js_get (query r1) n = js_get (query r2) n)
        \<and> preListHandler c r1 = preListHandler c r2
      \<longrightarrow> list_filter c r1 = list_filter c r2)
   \<and> ((case fieldNamesSearch opts of None \<Rightarrow> [] | Some ns \<Rightarrow> ns) = []
        \<and> (js_get (query r) ''q'' = JUndefined \<or> (\<exists>s. js_get (query r) ''q'' = JStr s))
      \<longrightarrow> (\<exists>g. list_query (BasicController lib mdl opts) r = Inr g
                \<and> map_of g ''$or'' = Some (JArr []))
          \<and> (\<exists>f. list_filter (BasicController lib mdl opts) r = Inr f
                \<and> ''$or'' \<notin> set (js_keys f))
          \<and> (''q'' \<notin> set (case fieldNamesSearchFilter opts of None \<Rightarrow> [] | Some ns \<Rightarrow> ns)
               \<longrightarrow> list_filter (BasicController lib mdl opts)
                     (r\<lparr>query := js_set (query r) ''q'' (JStr t)\<rparr>)
                   = list_filter (BasicController lib mdl opts) r))"
proof -
  let ?B = "BasicController lib mdl opts"
  let ?cond = "\<lambda>field. JObj [(field, JObj [(''$regex'', JRegExp [] ''i'')])]"
  let ?names = "case fieldNamesSearch opts of None \<Rightarrow> [] | Some ns \<Rightarrow> ns"
  let ?fnames = "case fieldNamesSearchFilter opts of None \<Rightarrow> [] | Some ns \<Rightarrow> ns"
  have p1: "list_or c req =
        Inr (map ?cond (case fieldNamesSearch (options c) of None \<Rightarrow> [] | Some ns \<Rightarrow> ns))
      \<and> (\<exists>g. list_query ?B req = Inr g \<and> map_of g ''$or'' = Some (JArr (map ?cond ?names)))
      \<and> (\<exists>f. list_filter ?B req = Inr f
             \<and> map_of f ''$or'' = (if ?names = [] then None else Some (JArr (map ?cond ?names))))"
    if e: "js_get (query req) ''q'' = JUndefined \<or> js_get (query req) ''q'' = JStr []"
  proof -
    have o: "list_or c req =
        Inr (map ?cond (case fieldNamesSearch (options c) of None \<Rightarrow> [] | Some ns \<Rightarrow> ns))" for c
      using e by (auto simp: list_or_def)
    have ob: "list_or ?B req = Inr (map ?cond ?names)"
      using o [of ?B] by (simp add: BasicController_def)
    have g: "\<exists>g. list_query ?B req = Inr g \<and> map_of g ''$or'' = Some (JArr (map ?cond ?names))"
      by (simp add: base_list_query [OF ob])
    have f: "\<exists>f. list_filter ?B req = Inr f
             \<and> map_of f ''$or'' = (if ?names = [] then None else Some (JArr (map ?cond ?names)))"
      by (simp add: list_filter_def base_list_query [OF ob] normalized_or)
    from o [of c] g f show ?thesis by (intro conjI)
  qed
  have p2: "\<forall>subject. literal_match [] ''i'' subject = Some True"
    by (simp add: literal_match_def occurs_in_empty)
  have p3: "list_filter c r1 = list_filter c r2"
    if ns: "(case fieldNamesSearch (options c) of None \<Rightarrow> [] | Some ns \<Rightarrow> ns) = []"
      and s1: "js_get (query r1) ''q'' = JUndefined \<or> (\<exists>s. js_get (query r1) ''q'' = JStr s)"
      and s2: "js_get (query r2) ''q'' = JUndefined \<or> (\<exists>s. js_get (query r2) ''q'' = JStr s)"
      and ag: "\<forall>n \<in> set (case fieldNamesSearchFilter (options c) of None \<Rightarrow> [] | Some ns \<Rightarrow> ns).
              js_get (query r1) n = js_get (query r2) n"
      and hk: "preListHandler c r1 = preListHandler c r2"
  proof -
    have o1: "list_or c r1 = Inr []" using ns s1 by (rule list_or_no_fields)
    have o2: "list_or c r2 = Inr []" using ns s2 by (rule list_or_no_fields)
    have p: "prepareFilter (mongoose c) (query r1)
               (case fieldNamesSearchFilter (options c) of None \<Rightarrow> [] | Some ns \<Rightarrow> ns)
           = prepareFilter (mongoose c) (query r2)
               (case fieldNamesSearchFilter (options c) of None \<Rightarrow> [] | Some ns \<Rightarrow> ns)"
      using ag by (rule prepareFilter_cong)
    have "list_query c r1 = list_query c r2"
      by (simp add: list_query_def o1 o2 p hk)
    then show ?thesis by (simp add: list_filter_def)
  qed
  have p4: "(\<exists>g. list_query ?B r = Inr g \<and> map_of g ''$or'' = Some (JArr []))
          \<and> (\<exists>f. list_filter ?B r = Inr f \<and> ''$or'' \<notin> set (js_keys f))
          \<and> (''q'' \<notin> set ?fnames
               \<longrightarrow> list_filter ?B (r\<lparr>query := js_set (query r) ''q'' (JStr t)\<rparr>) = list_filter ?B r)"
    if ns: "?names = []"
      and s1: "js_get (query r) ''q'' = JUndefined \<or> (\<exists>s. js_get (query r) ''q'' = JStr s)"
  proof -
    have nsB: "(case fieldNamesSearch (options ?B) of None \<Rightarrow> [] | Some ns \<Rightarrow> ns) = []"
      using ns by (simp add: BasicController_def)
    have o: "list_or ?B r = Inr []" using nsB s1 by (rule list_or_no_fields)
    have g: "\<exists>g. list_query ?B r = Inr g \<and> map_of g ''$or'' = Some (JArr [])"
      by (simp add: base_list_query [OF o])
    have f: "\<exists>f. list_filter ?B r = Inr f \<and> ''$or'' \<notin> set (js_keys f)"
      by (simp add: list_filter_def base_list_query [OF o] normalized_or_key)
    have d: "list_filter ?B (r\<lparr>query := js_set (query r) ''q'' (JStr t)\<rparr>) = list_filter ?B r"
      if nq: "''q'' \<notin> set ?fnames"
    proof -
      let ?r' = "r\<lparr>query := js_set (query r) ''q'' (JStr t)\<rparr>"
      have "js_get (query ?r') ''q'' = JUndefined \<or> (\<exists>s. js_get (query ?r') ''q'' = JStr s)"
        by (simp add: js_get_js_set)
      with nsB have o': "list_or ?B ?r' = Inr []"
        by (rule list_or_no_fields)
      have "\<forall>n \<in> set ?fnames. js_get (js_set (query r) ''q'' (JStr t)) n = js_get (query r) n"
        using nq by (auto simp: js_get_js_set)
      then have p: "prepareFilter lib (js_set (query r) ''q'' (JStr t)) ?fnames
          = prepareFilter lib (query r) ?fnames"
        by (rule prepareFilter_cong)
      show ?thesis
        by (simp add: list_filter_def base_list_query [OF o] base_list_query [OF o'] p)
    qed
    from g f d show ?thesis by blast
  qed
  from p1 p2 p3 p4 show ?thesis by blast
qed

theorem empty_search_term_witness:
  "list_or (BasicController example_lib example_model search_options)
     \<lparr>body = [], query = [(''q'', JStr [])], user = JNull, item = []\<rparr>
   = Inr [JObj [(''title'', JObj [(''$regex'', JRegExp [] ''i'')])],
          JObj [(''text'', JObj [(''$regex'', JRegExp [] ''i'')])]]
   \<and> list_filter (BasicController example_lib example_model search_options)
     \<lparr>body = [], query = [(''q'', JStr [])], user = JNull, item = []\<rparr>
   = Inr [(''$or'', JArr [JObj [(''title'', JObj [(''$regex'', JRegExp [] ''i'')])],
                          JObj [(''text'', JObj [(''$regex'', JRegExp [] ''i'')])]])]
   \<and> literal_match [] ''i'' ''any text'' = Some True
   \<and> list_filter (BasicController example_lib example_model status_filter_options)
     \<lparr>body = [], query = [(''q'', JStr ''abc''), (''status'', JStr ''open'')], user = JNull, item = []\<rparr>
   = list_filter (BasicController example_lib example_model status_filter_options)
     \<lparr>body = [], query = [(''status'', JStr ''open'')], user = JNull, item = []\<rparr>
   \<and> list_filter (BasicController example_lib example_model status_filter_options)
     \<lparr>body = [], query = [(''status'', JStr ''open'')], user = JNull, item = []\<rparr>
   = Inr [(''$and'', JArr [JObj [(''status'', JStr ''open'')]])]
   \<and> list_filter (BasicController example_lib example_model status_filter_options)
     \<lparr>body = [], query = [(''status'', JStr ''open''), (''q'', JStr ''abc'')], user = JNull, item = []\<rparr>
   = Inr [(''$and'', JArr [JObj [(''status'', JStr ''open'')]])]"
  using empty_search_term
    [of "\<lparr>body = [], query = [(''q'', JStr [])], user = JNull, item = []\<rparr>"
      "BasicController example_lib example_model status_filter_options"
      example_lib example_model search_options
      "\<lparr>body = [], query = [(''q'', JStr ''abc''), (''status'', JStr ''open'')], user = JNull, item = []\<rparr>"
      "\<lparr>body = [], query = [(''status'', JStr ''open'')], user = JNull, item = []\<rparr>"
      "\<lparr>body = [], query = [(''status'', JStr ''open'')], user = JNull, item = []\<rparr>" "''abc''"]
  by (simp add: list_filter_def list_query_def list_or_def BasicController_def search_options_def
      status_filter_options_def prepareFilter_def normalizeQuery_def js_get_def object_assign_def
      example_lib_def literal_match_def)

end
